theory Spec2Isabelle
  imports Main
begin

section \<open>Python values, strings and ordered dictionaries\<close>

text \<open>
  The server (\<^verbatim>\<open>server.py\<close>) is a Python module. A Python \<^verbatim>\<open>str\<close> is carried here as the
  list of bytes of its UTF-8 encoding, so \<^verbatim>\<open>s.encode()\<close> is the identity and is not written.
  Python integers are unbounded: \<open>int\<close>. A float that goes into a payload is only ever
  printed (by \<^verbatim>\<open>urlencode\<close>, through \<^verbatim>\<open>str\<close>) or tested against \<^verbatim>\<open>None\<close>; it is carried as the
  text \<^verbatim>\<open>str\<close> prints for it.
\<close>

datatype pyfloat = PyFloat string

datatype pyval = VStr string | VInt int | VFloat pyfloat | VNone

text \<open>
  A \<^verbatim>\<open>dict\<close> keeps its keys in insertion order and \<^verbatim>\<open>urlencode\<close> walks them in that
  order, so a dictionary is an association list. \<^verbatim>\<open>d[k] = v\<close> replaces the value of a key
  that is present, where it stands, and appends a new key at the end.
\<close>

type_synonym pydict = "(string \<times> pyval) list"

definition keys :: "pydict \<Rightarrow> string list" where
  "keys d = map fst d"

definition contains :: "pydict \<Rightarrow> string \<Rightarrow> bool" where
  "contains d k = (k \<in> set (keys d))"

definition getitem :: "pydict \<Rightarrow> string \<Rightarrow> pyval option" where
  "getitem d k = map_of d k"

fun setitem :: "string \<Rightarrow> pyval \<Rightarrow> pydict \<Rightarrow> pydict" where
  "setitem k v [] = [(k, v)]"
| "setitem k v ((k', v') # d) =
     (if k' = k then (k, v) # d else (k', v') # setitem k v d)"

text \<open>Truthiness of an \<^verbatim>\<open>Optional[str]\<close>: \<^verbatim>\<open>None\<close> and the empty string are false.\<close>

fun truthy :: "string option \<Rightarrow> bool" where
  "truthy None = False"
| "truthy (Some s) = (s \<noteq> [])"

text \<open>\<^verbatim>\<open>a or b\<close> on two such values.\<close>

definition py_or :: "string option \<Rightarrow> string option \<Rightarrow> string option" where
  "py_or a b = (if truthy a then a else b)"

subsection \<open>\<^verbatim>\<open>str\<close> of a value\<close>

definition digit_chars :: string where
  "digit_chars = ''0123456789''"

fun str_nat :: "nat \<Rightarrow> string" where
  "str_nat n = (if n < 10 then [digit_chars ! n] else str_nat (n div 10) @ [digit_chars ! (n mod 10)])"

declare str_nat.simps [simp del]

definition str_int :: "int \<Rightarrow> string" where
  "str_int i = (if i < 0 then CHR ''-'' # str_nat (nat (- i)) else str_nat (nat i))"

fun py_str :: "pyval \<Rightarrow> string" where
  "py_str (VStr s) = s"
| "py_str (VInt i) = str_int i"
| "py_str (VFloat (PyFloat r)) = r"
| "py_str VNone = ''None''"

subsection \<open>\<^verbatim>\<open>urllib.parse.urlencode\<close>\<close>

text \<open>
  \<^verbatim>\<open>urlencode(payload)\<close> with its default arguments: every key and every value goes
  through \<^verbatim>\<open>quote_plus(str(x))\<close>, the pairs are written \<^verbatim>\<open>k=v\<close> and joined with \<^verbatim>\<open>&\<close>.
  \<^verbatim>\<open>quote_plus\<close> keeps the ASCII letters, the digits and \<^verbatim>\<open>_.-~\<close>, writes a space as
  \<^verbatim>\<open>+\<close> and every other byte of the UTF-8 encoding as \<^verbatim>\<open>%XX\<close> in upper-case hexadecimal.
\<close>

definition always_safe :: string where
  "always_safe = ''ABCDEFGHIJKLMNOPQRSTUVWXYZabcdefghijklmnopqrstuvwxyz0123456789_.-~''"

definition upper_hex :: string where
  "upper_hex = ''0123456789ABCDEF''"

definition quote_byte :: "char \<Rightarrow> string" where
  "quote_byte c =
     (if c = CHR '' '' then ''+''
      else if c \<in> set always_safe then [c]
      else [CHR ''%'', upper_hex ! (of_char c div 16), upper_hex ! (of_char c mod 16)])"

definition quote_plus :: "string \<Rightarrow> string" where
  "quote_plus s = concat (map quote_byte s)"

fun join :: "string \<Rightarrow> string list \<Rightarrow> string" where
  "join sep [] = []"
| "join sep [x] = x"
| "join sep (x # y # ys) = x @ sep @ join sep (y # ys)"

definition urlencode :: "pydict \<Rightarrow> string" where
  "urlencode query =
     join ''&'' (map (\<lambda>(k, v). quote_plus k @ ''='' @ quote_plus (py_str v)) query)"

section \<open>Environment and global initialisation (lines 50--63)\<close>

text \<open>
  \<open>environ\<close> is the process environment as \<^verbatim>\<open>os.getenv\<close> reads it once \<^verbatim>\<open>load_dotenv()\<close>
  has run: \<^verbatim>\<open>os.getenv(name)\<close> is \<^verbatim>\<open>None\<close> for a name that is not set. The module raises
  \<^verbatim>\<open>RuntimeError\<close> at import time, before \<^verbatim>\<open>FastMCP\<close> is built and before any tool is
  registered, so a failed start has no server at all.
\<close>

type_synonym environ = "string \<rightharpoonup> string"

datatype error =
    RuntimeError
  | HTTPStatusError nat
  | TransportError
  | JSONDecodeError

record credentials =
  API_KEY :: string
  API_SECRET :: string

definition startup :: "environ \<Rightarrow> error + credentials" where
  "startup env =
     (let api_key = env ''INDODAX_API_KEY'';
          api_secret = py_or (env ''INDODAX_API_SECRET'') (env ''INDODAX_SECRET_KEY'')
      in if \<not> truthy api_key \<or> \<not> truthy api_secret then Inl RuntimeError
         else (case (api_key, api_secret) of
                 (Some k, Some s) \<Rightarrow> Inr \<lparr>API_KEY = k, API_SECRET = s\<rparr>
               | _ \<Rightarrow> Inl RuntimeError))"

definition INDODAX_API_URL :: string where
  "INDODAX_API_URL = ''https://indodax.com/tapi''"

definition PUBLIC_API_BASE :: string where
  "PUBLIC_API_BASE = ''https://indodax.com/api''"

section \<open>The clock\<close>

text \<open>
  \<^verbatim>\<open>time()\<close> returns a float, a binary64 number; it is carried as a mantissa and an
  exponent, \<open>Float64 m e\<close> standing for \<open>m * 2 ^ e\<close>. \<^verbatim>\<open>time() * 1000\<close> turns \<^verbatim>\<open>1000\<close> into a
  float and takes the IEEE product: the exact product rounded to 53 significant bits, to
  nearest, ties to even. \<^verbatim>\<open>int(x)\<close> truncates toward zero. The product is infinite, and
  \<^verbatim>\<open>int\<close> raises, only for a clock that reads about \<^verbatim>\<open>1.8e305\<close> seconds or more; there is no
  branch for that. A product below \<open>2 ^ (- 1022)\<close> keeps fewer bits in the hardware; its
  truncation is 0 either way.
\<close>

datatype float64 = Float64 int int

fun bit_length :: "nat \<Rightarrow> nat" where
  "bit_length n = (if n = 0 then 0 else Suc (bit_length (n div 2)))"

declare bit_length.simps [simp del]

definition round53 :: "int \<Rightarrow> int \<Rightarrow> float64" where
  "round53 m e =
     (let s = bit_length (nat \<bar>m\<bar>) - 53
      in if s = 0 then Float64 m e
         else (let q = \<bar>m\<bar> div 2 ^ s;
                   r = \<bar>m\<bar> mod 2 ^ s;
                   half = 2 ^ (s - 1);
                   q' = (if half < r \<or> (r = half \<and> odd q) then q + 1 else q)
               in Float64 (sgn m * q') (e + int s)))"

definition float_of_int :: "int \<Rightarrow> float64" where
  "float_of_int i = round53 i 0"

definition float_mul :: "float64 \<Rightarrow> float64 \<Rightarrow> float64" where
  "float_mul x y =
     (case x of Float64 m1 e1 \<Rightarrow> (case y of Float64 m2 e2 \<Rightarrow> round53 (m1 * m2) (e1 + e2)))"

definition py_int :: "float64 \<Rightarrow> int" where
  "py_int x =
     (case x of Float64 m e \<Rightarrow>
        if 0 \<le> e then m * 2 ^ nat e else sgn m * (\<bar>m\<bar> div 2 ^ nat (- e)))"

section \<open>HTTP utility\<close>

text \<open>
  What the program hands to \<^verbatim>\<open>httpx\<close> is a request; what comes back is a response or an
  exception of the transport (DNS, timeout, TLS). \<^verbatim>\<open>response.raise_for_status()\<close> raises
  \<^verbatim>\<open>HTTPStatusError\<close> unless the status is a success code, \<open>200 \<le> status \<le> 299\<close>;
  \<^verbatim>\<open>response.json()\<close> raises when the body is not JSON.

  Everything outside the module is a field of the context \<open>ctx\<close>: the credentials that
  \<open>startup\<close> produced, the library function \<^verbatim>\<open>hmac.new(key, msg, hashlib.sha512).hexdigest()\<close>
  (from key bytes and message bytes to the hexadecimal digest), the float that \<^verbatim>\<open>time()\<close>
  returns at the call, the network, and the JSON parser.
\<close>

datatype http_method = GET | POST

record request =
  http_method :: http_method
  url :: string
  headers :: "(string \<times> string) list"
  data :: string

record response =
  status_code :: nat
  content :: string

record 'j ctx =
  creds :: credentials
  hmac_sha512_hexdigest :: "string \<Rightarrow> string \<Rightarrow> string"
  time :: float64
  net :: "request \<Rightarrow> error + response"
  json_loads :: "string \<Rightarrow> 'j option"

text \<open>\<^verbatim>\<open>int(time() * 1000)\<close>, line 78: the epoch time in milliseconds.\<close>

definition time_ms :: "'j ctx \<Rightarrow> int" where
  "time_ms c = py_int (float_mul (time c) (float_of_int 1000))"

definition is_success :: "response \<Rightarrow> bool" where
  "is_success r = (200 \<le> status_code r \<and> status_code r \<le> 299)"

definition raise_for_status :: "response \<Rightarrow> error + response" where
  "raise_for_status r = (if is_success r then Inr r else Inl (HTTPStatusError (status_code r)))"

definition json :: "'j ctx \<Rightarrow> response \<Rightarrow> error + 'j" where
  "json c r = (case json_loads c (content r) of None \<Rightarrow> Inl JSONDecodeError | Some j \<Rightarrow> Inr j)"

text \<open>Lines 91--92 and 104--105: the last two statements of both dispatchers.\<close>

definition receive :: "'j ctx \<Rightarrow> error + response \<Rightarrow> error + 'j" where
  "receive c got =
     (case got of
        Inl e \<Rightarrow> Inl e
      | Inr r \<Rightarrow> (case raise_for_status r of Inl e \<Rightarrow> Inl e | Inr r' \<Rightarrow> json c r'))"

subsection \<open>The signed dispatcher \<^verbatim>\<open>_private_post\<close> (lines 69--92)\<close>

text \<open>Lines 75--78: the dictionary after the timestamp step.\<close>

definition fill_timestamp :: "'j ctx \<Rightarrow> pydict \<Rightarrow> pydict" where
  "fill_timestamp c payload =
     (if \<not> contains payload ''timestamp'' \<and> \<not> contains payload ''nonce''
      then setitem ''timestamp'' (VInt (time_ms c)) payload
      else payload)"

text \<open>Lines 80--87 and 90: body, signature, headers, and the arguments of \<^verbatim>\<open>client.post\<close>.\<close>

definition signed_request :: "'j ctx \<Rightarrow> pydict \<Rightarrow> request" where
  "signed_request c payload =
     (let body = urlencode payload;
          sign = hmac_sha512_hexdigest c (API_SECRET (creds c)) body;
          headers = [(''Key'', API_KEY (creds c)),
                     (''Sign'', sign),
                     (''Content-Type'', ''application/x-www-form-urlencoded'')]
      in \<lparr>http_method = POST, url = INDODAX_API_URL, headers = headers, data = body\<rparr>)"

text \<open>
  The dictionary is the caller's object and the function writes into it, so the model
  returns it next to the outcome: the first component is the caller's dictionary after
  the call, whether the call returns or raises.
\<close>

definition private_post :: "'j ctx \<Rightarrow> pydict \<Rightarrow> pydict \<times> (error + 'j)" where
  "private_post c payload =
     (let payload = fill_timestamp c payload
      in (payload, receive c (net c (signed_request c payload))))"

text \<open>The request that \<^verbatim>\<open>_private_post\<close> hands to \<^verbatim>\<open>client.post\<close> when called with a dictionary.\<close>

definition sent_request :: "'j ctx \<Rightarrow> pydict \<Rightarrow> request" where
  "sent_request c payload = signed_request c (fill_timestamp c payload)"

subsection \<open>The public fetcher \<^verbatim>\<open>_public_get\<close> (lines 100--105)\<close>

definition public_request :: "string \<Rightarrow> request" where
  "public_request path =
     \<lparr>http_method = GET, url = PUBLIC_API_BASE @ ''/'' @ path, headers = [], data = []\<rparr>"

definition public_get :: "'j ctx \<Rightarrow> string \<Rightarrow> error + 'j" where
  "public_get c path = receive c (net c (public_request path))"

section \<open>Tools\<close>

subsection \<open>Public tools (lines 107--142)\<close>

text \<open>\<^verbatim>\<open>path = f"ticker/{pair_id}" if pair_id else "ticker"\<close>, and the same for trades.\<close>

definition ticker_path :: "string option \<Rightarrow> string" where
  "ticker_path pair_id =
     (case pair_id of
        Some p \<Rightarrow> (if truthy pair_id then ''ticker/'' @ p else ''ticker'')
      | None \<Rightarrow> ''ticker'')"

definition trades_path :: "string option \<Rightarrow> string" where
  "trades_path pair_id =
     (case pair_id of
        Some p \<Rightarrow> (if truthy pair_id then ''trades/'' @ p else ''trades'')
      | None \<Rightarrow> ''trades'')"

subsection \<open>Payloads of the private tools (lines 148--322)\<close>

text \<open>
  Each private tool builds a dictionary and returns \<^verbatim>\<open>await _private_post(payload)\<close>. The
  two guards the source uses are kept apart: \<^verbatim>\<open>if x:\<close> (truthiness, for strings) and
  \<^verbatim>\<open>if x is not None:\<close> (for numbers).
\<close>

definition if_truthy :: "string \<Rightarrow> string option \<Rightarrow> pydict \<Rightarrow> pydict" where
  "if_truthy k x payload =
     (case x of
        Some s \<Rightarrow> (if truthy x then setitem k (VStr s) payload else payload)
      | None \<Rightarrow> payload)"

definition if_not_None :: "string \<Rightarrow> pyval option \<Rightarrow> pydict \<Rightarrow> pydict" where
  "if_not_None k x payload =
     (case x of Some v \<Rightarrow> setitem k v payload | None \<Rightarrow> payload)"

definition get_info_payload :: pydict where
  "get_info_payload = [(''method'', VStr ''getInfo'')]"

definition trans_history_payload :: "string option \<Rightarrow> string option \<Rightarrow> pydict" where
  "trans_history_payload start end' =
     (let payload = [(''method'', VStr ''transHistory'')];
          payload = if_truthy ''start'' start payload;
          payload = if_truthy ''end'' end' payload
      in payload)"

definition trade_payload ::
  "string \<Rightarrow> string \<Rightarrow> pyfloat \<Rightarrow> pyfloat option \<Rightarrow> pyfloat option \<Rightarrow> pydict" where
  "trade_payload pair type' price idr crypto =
     (let payload = [(''method'', VStr ''trade''),
                     (''pair'', VStr pair),
                     (''type'', VStr type'),
                     (''price'', VFloat price)];
          payload = if_not_None ''idr'' (map_option VFloat idr) payload;
          payload = if_not_None ''crypto'' (map_option VFloat crypto) payload
      in payload)"

definition trade_history_payload ::
  "string option \<Rightarrow> int \<Rightarrow> int option \<Rightarrow> int option \<Rightarrow> string \<Rightarrow> pydict" where
  "trade_history_payload pair count from_id end_id order =
     (let payload = [(''method'', VStr ''tradeHistory''),
                     (''count'', VInt count),
                     (''order'', VStr order)];
          payload = if_truthy ''pair'' pair payload;
          payload = if_not_None ''from'' (map_option VInt from_id) payload;
          payload = if_not_None ''end'' (map_option VInt end_id) payload
      in payload)"

definition open_orders_payload :: "string option \<Rightarrow> pydict" where
  "open_orders_payload pair =
     (let payload = [(''method'', VStr ''openOrders'')];
          payload = if_truthy ''pair'' pair payload
      in payload)"

definition order_history_payload ::
  "string option \<Rightarrow> int \<Rightarrow> int option \<Rightarrow> int option \<Rightarrow> string \<Rightarrow> pydict" where
  "order_history_payload pair count from_id end_id order =
     (let payload = [(''method'', VStr ''orderHistory''),
                     (''count'', VInt count),
                     (''order'', VStr order)];
          payload = if_truthy ''pair'' pair payload;
          payload = if_not_None ''from'' (map_option VInt from_id) payload;
          payload = if_not_None ''end'' (map_option VInt end_id) payload
      in payload)"

definition get_order_payload :: "int \<Rightarrow> pydict" where
  "get_order_payload order_id = [(''method'', VStr ''getOrder''), (''order_id'', VInt order_id)]"

definition get_order_by_client_order_id_payload :: "string \<Rightarrow> pydict" where
  "get_order_by_client_order_id_payload client_order_id =
     [(''method'', VStr ''getOrderByClientOrderId''), (''client_order_id'', VStr client_order_id)]"

definition cancel_order_payload :: "int \<Rightarrow> pydict" where
  "cancel_order_payload order_id = [(''method'', VStr ''cancelOrder''), (''order_id'', VInt order_id)]"

definition cancel_by_client_order_id_payload :: "string \<Rightarrow> pydict" where
  "cancel_by_client_order_id_payload client_order_id =
     [(''method'', VStr ''cancelByClientOrderId''), (''client_order_id'', VStr client_order_id)]"

definition withdraw_fee_payload ::
  "string \<Rightarrow> pyfloat \<Rightarrow> string \<Rightarrow> string option \<Rightarrow> pydict" where
  "withdraw_fee_payload currency amount address network =
     (let payload = [(''method'', VStr ''withdrawFee''),
                     (''currency'', VStr currency),
                     (''amount'', VFloat amount),
                     (''address'', VStr address)];
          payload = if_truthy ''network'' network payload
      in payload)"

definition withdraw_coin_payload ::
  "string \<Rightarrow> pyfloat \<Rightarrow> string \<Rightarrow> string option \<Rightarrow> string option \<Rightarrow> pydict" where
  "withdraw_coin_payload currency amount address network memo =
     (let payload = [(''method'', VStr ''withdrawCoin''),
                     (''currency'', VStr currency),
                     (''amount'', VFloat amount),
                     (''address'', VStr address)];
          payload = if_truthy ''network'' network payload;
          payload = if_truthy ''memo'' memo payload
      in payload)"

definition list_downline_payload :: pydict where
  "list_downline_payload = [(''method'', VStr ''listDownline'')]"

definition check_downline_payload :: "string \<Rightarrow> pydict" where
  "check_downline_payload username = [(''method'', VStr ''checkDownline''), (''username'', VStr username)]"

definition create_voucher_payload :: "pyfloat \<Rightarrow> string option \<Rightarrow> pydict" where
  "create_voucher_payload amount description =
     (let payload = [(''method'', VStr ''createVoucher''), (''amount'', VFloat amount)];
          payload = if_truthy ''description'' description payload
      in payload)"

subsection \<open>Tool invocations\<close>

text \<open>
  A tool invocation names a tool and gives its arguments. A parameter that the signature
  declares with a default value is an \<open>option\<close> here: \<open>None\<close> is a parameter the caller
  did not supply, and Python then binds the default of the signature (\<^verbatim>\<open>None\<close>,
  \<^verbatim>\<open>count = 100\<close>, \<^verbatim>\<open>order = "desc"\<close>). An exception that leaves the tool function is the
  failed invocation: \<open>Inl\<close>.
\<close>

datatype tool_call =
    Server_time
  | Pairs
  | Price_increments
  | Summaries
  | Ticker "string option"
  | Ticker_all
  | Trades "string option"
  | Get_info
  | Trans_history "string option" "string option"
  | Trade string string pyfloat "pyfloat option" "pyfloat option"
  | Trade_history "string option" "int option" "int option" "int option" "string option"
  | Open_orders "string option"
  | Order_history "string option" "int option" "int option" "int option" "string option"
  | Get_order int
  | Get_order_by_client_order_id string
  | Cancel_order int
  | Cancel_by_client_order_id string
  | Withdraw_fee string pyfloat string "string option"
  | Withdraw_coin string pyfloat string "string option" "string option"
  | List_downline
  | Check_downline string
  | Create_voucher pyfloat "string option"

definition default :: "'a \<Rightarrow> 'a option \<Rightarrow> 'a" where
  "default d x = (case x of None \<Rightarrow> d | Some v \<Rightarrow> v)"

datatype target = Public_get string | Private_post pydict

fun target_of :: "tool_call \<Rightarrow> target" where
  "target_of Server_time = Public_get ''server_time''"
| "target_of Pairs = Public_get ''pairs''"
| "target_of Price_increments = Public_get ''price_increments''"
| "target_of Summaries = Public_get ''summaries''"
| "target_of (Ticker pair_id) = Public_get (ticker_path pair_id)"
| "target_of Ticker_all = Public_get ''ticker_all''"
| "target_of (Trades pair_id) = Public_get (trades_path pair_id)"
| "target_of Get_info = Private_post get_info_payload"
| "target_of (Trans_history start end') = Private_post (trans_history_payload start end')"
| "target_of (Trade pair type' price idr crypto) =
     Private_post (trade_payload pair type' price idr crypto)"
| "target_of (Trade_history pair count from_id end_id order) =
     Private_post (trade_history_payload pair (default 100 count) from_id end_id (default ''desc'' order))"
| "target_of (Open_orders pair) = Private_post (open_orders_payload pair)"
| "target_of (Order_history pair count from_id end_id order) =
     Private_post (order_history_payload pair (default 100 count) from_id end_id (default ''desc'' order))"
| "target_of (Get_order order_id) = Private_post (get_order_payload order_id)"
| "target_of (Get_order_by_client_order_id client_order_id) =
     Private_post (get_order_by_client_order_id_payload client_order_id)"
| "target_of (Cancel_order order_id) = Private_post (cancel_order_payload order_id)"
| "target_of (Cancel_by_client_order_id client_order_id) =
     Private_post (cancel_by_client_order_id_payload client_order_id)"
| "target_of (Withdraw_fee currency amount address network) =
     Private_post (withdraw_fee_payload currency amount address network)"
| "target_of (Withdraw_coin currency amount address network memo) =
     Private_post (withdraw_coin_payload currency amount address network memo)"
| "target_of List_downline = Private_post list_downline_payload"
| "target_of (Check_downline username) = Private_post (check_downline_payload username)"
| "target_of (Create_voucher amount description) =
     Private_post (create_voucher_payload amount description)"

definition call_tool :: "'j ctx \<Rightarrow> tool_call \<Rightarrow> error + 'j" where
  "call_tool c t =
     (case target_of t of
        Public_get path \<Rightarrow> public_get c path
      | Private_post payload \<Rightarrow> snd (private_post c payload))"

text \<open>
  The server as a whole: the module's top level runs first, and a tool is servable only
  if it did not raise.
\<close>

definition serve :: "environ \<Rightarrow> 'j ctx \<Rightarrow> tool_call \<Rightarrow> error + 'j" where
  "serve env c t =
     (case startup env of
        Inl e \<Rightarrow> Inl e
      | Inr cr \<Rightarrow> call_tool (c\<lparr>creds := cr\<rparr>) t)"

text \<open>What a tool invocation puts on the wire, and the dictionary it builds (empty for a public tool).\<close>

definition request_of :: "'j ctx \<Rightarrow> tool_call \<Rightarrow> request" where
  "request_of c t =
     (case target_of t of
        Public_get path \<Rightarrow> public_request path
      | Private_post payload \<Rightarrow> sent_request c payload)"

definition payload_of :: "tool_call \<Rightarrow> pydict" where
  "payload_of t = (case target_of t of Public_get path \<Rightarrow> [] | Private_post payload \<Rightarrow> payload)"

text \<open>
  The parameters of the private tools whose default is \<^verbatim>\<open>None\<close>: the payload field each
  one feeds, and whether the caller supplied it. (\<^verbatim>\<open>count\<close> and \<^verbatim>\<open>order\<close> have the defaults
  \<^verbatim>\<open>100\<close> and \<^verbatim>\<open>"desc"\<close> and are not in this list.)
\<close>

fun none_default_params :: "tool_call \<Rightarrow> (string \<times> bool) list" where
  "none_default_params (Trans_history start end') =
     [(''start'', start \<noteq> None), (''end'', end' \<noteq> None)]"
| "none_default_params (Trade pair type' price idr crypto) =
     [(''idr'', idr \<noteq> None), (''crypto'', crypto \<noteq> None)]"
| "none_default_params (Trade_history pair count from_id end_id order) =
     [(''pair'', pair \<noteq> None), (''from'', from_id \<noteq> None), (''end'', end_id \<noteq> None)]"
| "none_default_params (Open_orders pair) = [(''pair'', pair \<noteq> None)]"
| "none_default_params (Order_history pair count from_id end_id order) =
     [(''pair'', pair \<noteq> None), (''from'', from_id \<noteq> None), (''end'', end_id \<noteq> None)]"
| "none_default_params (Withdraw_fee currency amount address network) =
     [(''network'', network \<noteq> None)]"
| "none_default_params (Withdraw_coin currency amount address network memo) =
     [(''network'', network \<noteq> None), (''memo'', memo \<noteq> None)]"
| "none_default_params (Create_voucher amount description) =
     [(''description'', description \<noteq> None)]"
| "none_default_params _ = []"

section \<open>Properties\<close>

subsection \<open>Dictionaries\<close>

lemma setitem_absent: "k \<notin> fst ` set d \<Longrightarrow> setitem k v d = d @ [(k, v)]"
  by (induction d) auto

lemma map_of_setitem: "map_of (setitem k v d) = (map_of d)(k \<mapsto> v)"
  by (induction d) (auto simp: fun_eq_iff)

lemma keys_setitem:
  "keys (setitem k v d) = (if k \<in> set (keys d) then keys d else keys d @ [k])"
proof (induction d)
  case Nil
  show ?case by (simp add: keys_def)
next
  case (Cons p d)
  obtain a b where p: "p = (a, b)" by (cases p)
  show ?case using Cons by (simp add: keys_def p)
qed

lemma in_setitem: "(a, b) \<in> set (setitem k v d) \<Longrightarrow> b = v \<or> (a, b) \<in> set d"
  by (induction d) (auto split: if_splits)

lemma contains_setitem: "contains (setitem k v d) k' = (k' = k \<or> contains d k')"
  by (auto simp: contains_def keys_setitem)

lemma getitem_setitem: "getitem (setitem k v d) k' = (if k' = k then Some v else getitem d k')"
  by (simp add: getitem_def map_of_setitem)

lemma getitem_append_absent:
  "\<not> contains d k \<Longrightarrow> getitem (d @ [(k, v)]) k' = (if k' = k then Some v else getitem d k')"
  by (induction d) (auto simp: getitem_def contains_def keys_def)

subsection \<open>The timestamp step and the request\<close>

lemma time_ms_1700000000123:
  "py_int (float_mul (Float64 7130316800515899 (- 22)) (float_of_int 1000)) = 1700000000123"
  by (simp add: py_int_def float_mul_def float_of_int_def round53_def bit_length.simps Let_def)

lemma time_ms_creds: "time_ms (c\<lparr>creds := cr\<rparr>) = time_ms c"
  by (simp add: time_ms_def)

lemma time_ms_hmac: "time_ms (c\<lparr>hmac_sha512_hexdigest := h\<rparr>) = time_ms c"
  by (simp add: time_ms_def)

lemma fill_timestamp_absent:
  assumes "\<not> contains payload ''nonce''" and "\<not> contains payload ''timestamp''"
  shows "fill_timestamp c payload = payload @ [(''timestamp'', VInt (time_ms c))]"
proof -
  have "''timestamp'' \<notin> fst ` set payload"
    using assms(2) by (simp add: contains_def keys_def)
  then show ?thesis
    using assms by (simp add: fill_timestamp_def setitem_absent)
qed

lemma fill_timestamp_present:
  "contains payload ''nonce'' \<or> contains payload ''timestamp'' \<Longrightarrow> fill_timestamp c payload = payload"
  by (auto simp: fill_timestamp_def)

lemma private_post_eq:
  "private_post c payload =
     (fill_timestamp c payload, receive c (net c (sent_request c payload)))"
  by (simp add: private_post_def sent_request_def Let_def)

lemma signed_request_eq:
  "signed_request c payload =
     \<lparr>http_method = POST, url = INDODAX_API_URL,
      headers = [(''Key'', API_KEY (creds c)),
                 (''Sign'', hmac_sha512_hexdigest c (API_SECRET (creds c)) (urlencode payload)),
                 (''Content-Type'', ''application/x-www-form-urlencoded'')],
      data = urlencode payload\<rparr>"
  by (simp add: signed_request_def Let_def)

lemma receive_json_loads:
  "json_loads c1 = json_loads c2 \<Longrightarrow> receive c1 got = receive c2 got"
  by (auto simp: receive_def json_def split: sum.splits)

lemma receive_creds: "receive (c\<lparr>creds := cr\<rparr>) got = receive c got"
  by (rule receive_json_loads) simp

lemma receive_hmac: "receive (c\<lparr>hmac_sha512_hexdigest := h\<rparr>) got = receive c got"
  by (rule receive_json_loads) simp

lemma sign_header:
  "map_of (headers (signed_request c payload)) ''Sign'' =
     Some (hmac_sha512_hexdigest c (API_SECRET (creds c)) (urlencode payload))"
  by (simp add: signed_request_eq)

lemma urlencode_getInfo_nonce:
  "urlencode [(''method'', VStr ''getInfo''), (''nonce'', VStr ''1'')] = ''method=getInfo&nonce=1''"
  by (simp add: urlencode_def quote_plus_def quote_byte_def always_safe_def)

text \<open>
  C1. For every payload, the \<^verbatim>\<open>Sign\<close> header of the request that the signed dispatcher
  sends is the HMAC-SHA512 hexdigest, keyed by the configured secret, of the very string
  that is sent as the body, which is the urlencoded dictionary; the outcome of the call is
  what the network answers to that request.
\<close>

theorem sign_is_hmac_of_sent_body:
  "snd (private_post c payload) = receive c (net c (sent_request c payload))
   \<and> map_of (headers (sent_request c payload)) ''Sign'' =
       Some (hmac_sha512_hexdigest c (API_SECRET (creds c)) (data (sent_request c payload)))
   \<and> data (sent_request c payload) = urlencode (fst (private_post c payload))
   \<and> http_method (sent_request c payload) = POST"
  by (simp add: private_post_eq sent_request_def signed_request_eq)

text \<open>
  C2. The signed dispatcher called with a payload that has neither a \<^verbatim>\<open>nonce\<close> nor a
  \<^verbatim>\<open>timestamp\<close> key: the dictionary has one field more afterwards, \<^verbatim>\<open>timestamp\<close>, set to the
  epoch time in milliseconds, which is \<^verbatim>\<open>int(time() * 1000)\<close>, the clock's seconds times 1000
  as a float, truncated; it has exactly one \<^verbatim>\<open>timestamp\<close> key, and the request handed to the
  network carries the serialization of that dictionary as its body and the HMAC of that
  serialization as its signature. Called with a payload that has either key, the
  dispatcher adds no field: the dictionary is the same afterwards, and it is the payload
  itself that is serialized and signed.
\<close>

theorem timestamp_added_iff_no_nonce_no_timestamp:
  "(\<not> contains payload ''nonce'' \<and> \<not> contains payload ''timestamp'' \<longrightarrow>
      private_post c payload =
        (payload @ [(''timestamp'', VInt (time_ms c))],
         receive c (net c
           \<lparr>http_method = POST, url = ''https://indodax.com/tapi'',
            headers = [(''Key'', API_KEY (creds c)),
                       (''Sign'', hmac_sha512_hexdigest c (API_SECRET (creds c))
                          (urlencode (payload @ [(''timestamp'', VInt (time_ms c))]))),
                       (''Content-Type'', ''application/x-www-form-urlencoded'')],
            data = urlencode (payload @ [(''timestamp'', VInt (time_ms c))])\<rparr>))
      \<and> length (filter (\<lambda>k. k = ''timestamp'') (keys (fst (private_post c payload)))) = 1
      \<and> time_ms c = py_int (float_mul (time c) (float_of_int 1000)))
   \<and> (contains payload ''nonce'' \<or> contains payload ''timestamp'' \<longrightarrow>
      private_post c payload =
        (payload,
         receive c (net c
           \<lparr>http_method = POST, url = ''https://indodax.com/tapi'',
            headers = [(''Key'', API_KEY (creds c)),
                       (''Sign'', hmac_sha512_hexdigest c (API_SECRET (creds c))
                          (urlencode payload)),
                       (''Content-Type'', ''application/x-www-form-urlencoded'')],
            data = urlencode payload\<rparr>)))"
proof (intro conjI impI)
  assume a: "\<not> contains payload ''nonce'' \<and> \<not> contains payload ''timestamp''"
  then have f: "fill_timestamp c payload = payload @ [(''timestamp'', VInt (time_ms c))]"
    by (simp add: fill_timestamp_absent)
  show "private_post c payload =
        (payload @ [(''timestamp'', VInt (time_ms c))],
         receive c (net c
           \<lparr>http_method = POST, url = ''https://indodax.com/tapi'',
            headers = [(''Key'', API_KEY (creds c)),
                       (''Sign'', hmac_sha512_hexdigest c (API_SECRET (creds c))
                          (urlencode (payload @ [(''timestamp'', VInt (time_ms c))]))),
                       (''Content-Type'', ''application/x-www-form-urlencoded'')],
            data = urlencode (payload @ [(''timestamp'', VInt (time_ms c))])\<rparr>))"
    by (simp add: private_post_eq sent_request_def f signed_request_eq INDODAX_API_URL_def)
  have "filter (\<lambda>k. k = ''timestamp'') (keys payload) = []"
    using a by (auto simp: contains_def filter_empty_conv)
  then show "length (filter (\<lambda>k. k = ''timestamp'') (keys (fst (private_post c payload)))) = 1"
    by (simp add: private_post_eq f keys_def)
  show "time_ms c = py_int (float_mul (time c) (float_of_int 1000))"
    by (simp add: time_ms_def)
next
  assume "contains payload ''nonce'' \<or> contains payload ''timestamp''"
  then have f: "fill_timestamp c payload = payload"
    by (rule fill_timestamp_present)
  show "private_post c payload =
        (payload,
         receive c (net c
           \<lparr>http_method = POST, url = ''https://indodax.com/tapi'',
            headers = [(''Key'', API_KEY (creds c)),
                       (''Sign'', hmac_sha512_hexdigest c (API_SECRET (creds c))
                          (urlencode payload)),
                       (''Content-Type'', ''application/x-www-form-urlencoded'')],
            data = urlencode payload\<rparr>))"
    by (simp add: private_post_eq sent_request_def f signed_request_eq INDODAX_API_URL_def)
qed

text \<open>
  The clock of the witness reads \<^verbatim>\<open>1700000000.123\<close>, the float
  \<open>7130316800515899 * 2 ^ (- 22)\<close>. Its network answers 200 to the expected body and fails
  on any other request, so the outcome shows which body was sent.
\<close>

theorem timestamp_added_witness:
  "private_post
      \<lparr>creds = \<lparr>API_KEY = ''key'', API_SECRET = ''s3cr3t''\<rparr>,
       hmac_sha512_hexdigest = (\<lambda>k m. ''00''), time = Float64 7130316800515899 (- 22),
       net = (\<lambda>q. if data q = ''method=getInfo&timestamp=1700000000123''
                   then Inr \<lparr>status_code = 200, content = ''sent''\<rparr>
                   else Inl TransportError),
       json_loads = (\<lambda>b. Some b)\<rparr>
      [(''method'', VStr ''getInfo'')]
     = ([(''method'', VStr ''getInfo''), (''timestamp'', VInt 1700000000123)], Inr ''sent'')
   \<and> private_post
      \<lparr>creds = \<lparr>API_KEY = ''key'', API_SECRET = ''s3cr3t''\<rparr>,
       hmac_sha512_hexdigest = (\<lambda>k m. ''00''), time = Float64 7130316800515899 (- 22),
       net = (\<lambda>q. if data q = ''method=getInfo&nonce=1''
                   then Inr \<lparr>status_code = 200, content = ''sent''\<rparr>
                   else Inl TransportError),
       json_loads = (\<lambda>b. Some b)\<rparr>
      [(''method'', VStr ''getInfo''), (''nonce'', VStr ''1'')]
     = ([(''method'', VStr ''getInfo''), (''nonce'', VStr ''1'')], Inr ''sent'')"
  using timestamp_added_iff_no_nonce_no_timestamp
      [of "[(''method'', VStr ''getInfo'')]"
          "\<lparr>creds = \<lparr>API_KEY = ''key'', API_SECRET = ''s3cr3t''\<rparr>,
            hmac_sha512_hexdigest = (\<lambda>k m. ''00''), time = Float64 7130316800515899 (- 22),
            net = (\<lambda>q. if data q = ''method=getInfo&timestamp=1700000000123''
                        then Inr \<lparr>status_code = 200, content = ''sent''\<rparr>
                        else Inl TransportError),
            json_loads = (\<lambda>b. Some b)\<rparr>"]
    timestamp_added_iff_no_nonce_no_timestamp
      [of "[(''method'', VStr ''getInfo''), (''nonce'', VStr ''1'')]"
          "\<lparr>creds = \<lparr>API_KEY = ''key'', API_SECRET = ''s3cr3t''\<rparr>,
            hmac_sha512_hexdigest = (\<lambda>k m. ''00''), time = Float64 7130316800515899 (- 22),
            net = (\<lambda>q. if data q = ''method=getInfo&nonce=1''
                        then Inr \<lparr>status_code = 200, content = ''sent''\<rparr>
                        else Inl TransportError),
            json_loads = (\<lambda>b. Some b)\<rparr>"]
  by (simp add: contains_def keys_def urlencode_def quote_plus_def quote_byte_def
        always_safe_def str_int_def str_nat.simps digit_chars_def
        receive_def raise_for_status_def is_success_def json_def
        time_ms_def time_ms_1700000000123)

subsection \<open>Responses\<close>

lemma receive_not_success:
  "\<not> is_success r \<Longrightarrow> receive c (Inr r) = Inl (HTTPStatusError (status_code r))"
  by (simp add: receive_def raise_for_status_def)

lemma call_tool_eq: "call_tool c t = receive c (net c (request_of c t))"
  by (cases "target_of t")
     (simp_all add: call_tool_def request_of_def public_get_def private_post_eq)

text \<open>
  C3. Whatever the tool, public or private, and also for the two dispatchers called
  directly: when the response to the request has a status outside 200..299, the call
  raises \<^verbatim>\<open>HTTPStatusError\<close>; it returns no value, empty or partial.
\<close>

theorem non_2xx_status_fails:
  assumes "\<not> is_success r"
  shows "(net c (request_of c t) = Inr r \<longrightarrow>
            call_tool c t = Inl (HTTPStatusError (status_code r)))
       \<and> (net c (sent_request c payload) = Inr r \<longrightarrow>
            snd (private_post c payload) = Inl (HTTPStatusError (status_code r)))
       \<and> (net c (public_request path) = Inr r \<longrightarrow>
            public_get c path = Inl (HTTPStatusError (status_code r)))"
  using assms
  by (simp add: call_tool_eq private_post_eq public_get_def receive_not_success)

theorem non_2xx_status_fails_witness:
  "\<not> is_success \<lparr>status_code = 500, content = ''{}''\<rparr>
   \<and> call_tool
        \<lparr>creds = \<lparr>API_KEY = ''key'', API_SECRET = ''s3cr3t''\<rparr>,
         hmac_sha512_hexdigest = (\<lambda>k m. ''00''), time = Float64 7130316800515899 (- 22),
         net = (\<lambda>q. Inr \<lparr>status_code = 500, content = ''{}''\<rparr>),
         json_loads = (\<lambda>b. Some b)\<rparr>
        Get_info = Inl (HTTPStatusError 500)
   \<and> snd (private_post
        \<lparr>creds = \<lparr>API_KEY = ''key'', API_SECRET = ''s3cr3t''\<rparr>,
         hmac_sha512_hexdigest = (\<lambda>k m. ''00''), time = Float64 7130316800515899 (- 22),
         net = (\<lambda>q. Inr \<lparr>status_code = 500, content = ''{}''\<rparr>),
         json_loads = (\<lambda>b. Some b)\<rparr>
        [(''method'', VStr ''getInfo'')]) = Inl (HTTPStatusError 500)
   \<and> public_get
        \<lparr>creds = \<lparr>API_KEY = ''key'', API_SECRET = ''s3cr3t''\<rparr>,
         hmac_sha512_hexdigest = (\<lambda>k m. ''00''), time = Float64 7130316800515899 (- 22),
         net = (\<lambda>q. Inr \<lparr>status_code = 500, content = ''{}''\<rparr>),
         json_loads = (\<lambda>b. Some b)\<rparr>
        ''pairs'' = Inl (HTTPStatusError 500)"
  using non_2xx_status_fails
      [of "\<lparr>status_code = 500, content = ''{}''\<rparr>"
          "\<lparr>creds = \<lparr>API_KEY = ''key'', API_SECRET = ''s3cr3t''\<rparr>,
            hmac_sha512_hexdigest = (\<lambda>k m. ''00''), time = Float64 7130316800515899 (- 22),
            net = (\<lambda>q. Inr \<lparr>status_code = 500, content = ''{}''\<rparr>),
            json_loads = (\<lambda>b. Some b)\<rparr>"
          Get_info "[(''method'', VStr ''getInfo'')]" "''pairs''"]
  by (simp add: is_success_def)

text \<open>
  C4. The known vector: with the secret \<^verbatim>\<open>s3cr3t\<close>, the signed dispatcher called with
  \<^verbatim>\<open>{method: "getInfo", nonce: "1"}\<close> hands to the network the request whose body is
  \<^verbatim>\<open>method=getInfo&nonce=1\<close> and whose \<^verbatim>\<open>Sign\<close> header is the HMAC-SHA512 hexdigest with key
  \<^verbatim>\<open>s3cr3t\<close> of that string, and it leaves the dictionary as it was.
\<close>

theorem known_vector_getInfo_nonce_1:
  "private_post (c\<lparr>creds := \<lparr>API_KEY = k, API_SECRET = ''s3cr3t''\<rparr>\<rparr>)
       [(''method'', VStr ''getInfo''), (''nonce'', VStr ''1'')]
     = ([(''method'', VStr ''getInfo''), (''nonce'', VStr ''1'')],
        receive c (net c
          \<lparr>http_method = POST, url = ''https://indodax.com/tapi'',
           headers = [(''Key'', k),
                      (''Sign'', hmac_sha512_hexdigest c ''s3cr3t'' ''method=getInfo&nonce=1''),
                      (''Content-Type'', ''application/x-www-form-urlencoded'')],
           data = ''method=getInfo&nonce=1''\<rparr>))"
proof -
  have "contains [(''method'', VStr ''getInfo''), (''nonce'', VStr ''1'')] ''nonce''"
    by (simp add: contains_def keys_def)
  then have "fill_timestamp (c\<lparr>creds := \<lparr>API_KEY = k, API_SECRET = ''s3cr3t''\<rparr>\<rparr>)
               [(''method'', VStr ''getInfo''), (''nonce'', VStr ''1'')]
             = [(''method'', VStr ''getInfo''), (''nonce'', VStr ''1'')]"
    by (simp add: fill_timestamp_present)
  then show ?thesis
    by (simp add: private_post_eq sent_request_def signed_request_eq urlencode_getInfo_nonce
          INDODAX_API_URL_def receive_creds)
qed

text \<open>
  C5. Two runs of the signed dispatcher on a payload that has a \<^verbatim>\<open>nonce\<close> or a
  \<^verbatim>\<open>timestamp\<close>, with the same credentials and the same HMAC function, whatever the clock,
  the network and the JSON parser of each run: both hand the same request to their
  network. Its body is the urlencoded payload and its signature the HMAC of that body
  under the secret, so body and signature are functions of the secret and the payload.
\<close>

theorem signing_is_deterministic:
  assumes "contains payload ''nonce'' \<or> contains payload ''timestamp''"
    and "creds c1 = creds c2"
    and "hmac_sha512_hexdigest c1 = hmac_sha512_hexdigest c2"
  shows "private_post c1 payload =
          (payload,
           receive c1 (net c1
             \<lparr>http_method = POST, url = ''https://indodax.com/tapi'',
              headers = [(''Key'', API_KEY (creds c1)),
                         (''Sign'', hmac_sha512_hexdigest c1 (API_SECRET (creds c1))
                            (urlencode payload)),
                         (''Content-Type'', ''application/x-www-form-urlencoded'')],
              data = urlencode payload\<rparr>))
       \<and> private_post c2 payload =
          (payload,
           receive c2 (net c2
             \<lparr>http_method = POST, url = ''https://indodax.com/tapi'',
              headers = [(''Key'', API_KEY (creds c1)),
                         (''Sign'', hmac_sha512_hexdigest c1 (API_SECRET (creds c1))
                            (urlencode payload)),
                         (''Content-Type'', ''application/x-www-form-urlencoded'')],
              data = urlencode payload\<rparr>))"
  using assms
  by (simp add: private_post_eq sent_request_def fill_timestamp_present signed_request_eq
        INDODAX_API_URL_def)

text \<open>
  Two runs at different times: each network answers 200 to the one expected request and
  fails on any other, and both runs return.
\<close>

theorem signing_is_deterministic_witness:
  "private_post
      \<lparr>creds = \<lparr>API_KEY = ''key'', API_SECRET = ''s3cr3t''\<rparr>,
       hmac_sha512_hexdigest = (\<lambda>k m. k @ ''/'' @ m), time = Float64 7130316800515899 (- 22),
       net = (\<lambda>q. if data q = ''method=getInfo&nonce=1''
                      \<and> map_of (headers q) ''Sign'' = Some ''s3cr3t/method=getInfo&nonce=1''
                   then Inr \<lparr>status_code = 200, content = ''first''\<rparr>
                   else Inl TransportError),
       json_loads = (\<lambda>b. Some b)\<rparr>
      [(''method'', VStr ''getInfo''), (''nonce'', VStr ''1'')]
     = ([(''method'', VStr ''getInfo''), (''nonce'', VStr ''1'')], Inr ''first'')
   \<and> private_post
      \<lparr>creds = \<lparr>API_KEY = ''key'', API_SECRET = ''s3cr3t''\<rparr>,
       hmac_sha512_hexdigest = (\<lambda>k m. k @ ''/'' @ m), time = Float64 7549747201912603 (- 22),
       net = (\<lambda>q. if data q = ''method=getInfo&nonce=1''
                      \<and> map_of (headers q) ''Sign'' = Some ''s3cr3t/method=getInfo&nonce=1''
                   then Inr \<lparr>status_code = 200, content = ''second''\<rparr>
                   else Inl TransportError),
       json_loads = (\<lambda>b. Some b)\<rparr>
      [(''method'', VStr ''getInfo''), (''nonce'', VStr ''1'')]
     = ([(''method'', VStr ''getInfo''), (''nonce'', VStr ''1'')], Inr ''second'')"
proof -
  let ?p = "[(''method'', VStr ''getInfo''), (''nonce'', VStr ''1'')]"
  let ?c1 = "\<lparr>creds = \<lparr>API_KEY = ''key'', API_SECRET = ''s3cr3t''\<rparr>,
       hmac_sha512_hexdigest = (\<lambda>k m. k @ ''/'' @ m), time = Float64 7130316800515899 (- 22),
       net = (\<lambda>q. if data q = ''method=getInfo&nonce=1''
                      \<and> map_of (headers q) ''Sign'' = Some ''s3cr3t/method=getInfo&nonce=1''
                   then Inr \<lparr>status_code = 200, content = ''first''\<rparr>
                   else Inl TransportError),
       json_loads = (\<lambda>b. Some b)\<rparr>"
  let ?c2 = "\<lparr>creds = \<lparr>API_KEY = ''key'', API_SECRET = ''s3cr3t''\<rparr>,
       hmac_sha512_hexdigest = (\<lambda>k m. k @ ''/'' @ m), time = Float64 7549747201912603 (- 22),
       net = (\<lambda>q. if data q = ''method=getInfo&nonce=1''
                      \<and> map_of (headers q) ''Sign'' = Some ''s3cr3t/method=getInfo&nonce=1''
                   then Inr \<lparr>status_code = 200, content = ''second''\<rparr>
                   else Inl TransportError),
       json_loads = (\<lambda>b. Some b)\<rparr>"
  have h: "contains ?p ''nonce'' \<or> contains ?p ''timestamp''"
    by (simp add: contains_def keys_def)
  have "creds ?c1 = creds ?c2" and "hmac_sha512_hexdigest ?c1 = hmac_sha512_hexdigest ?c2"
    by simp_all
  from signing_is_deterministic [OF h this]
  show ?thesis
    by (simp add: urlencode_getInfo_nonce receive_def raise_for_status_def is_success_def
          json_def)
qed

subsection \<open>Start-up\<close>

lemma startup_Inl_iff:
  "isl (startup env) \<longleftrightarrow>
     \<not> truthy (env ''INDODAX_API_KEY'')
     \<or> \<not> truthy (env ''INDODAX_API_SECRET'') \<and> \<not> truthy (env ''INDODAX_SECRET_KEY'')"
  by (cases "env ''INDODAX_API_KEY''"; cases "env ''INDODAX_API_SECRET''";
      cases "env ''INDODAX_SECRET_KEY''")
     (auto simp: startup_def py_or_def Let_def)

lemma startup_error: "isl (startup env) \<Longrightarrow> startup env = Inl RuntimeError"
  by (cases "env ''INDODAX_API_KEY''"; cases "env ''INDODAX_API_SECRET''";
      cases "env ''INDODAX_SECRET_KEY''")
     (auto simp: startup_def py_or_def Let_def split: if_splits)

text \<open>
  C6. The module raises \<^verbatim>\<open>RuntimeError\<close> at start-up exactly when \<^verbatim>\<open>INDODAX_API_KEY\<close> is
  unset or empty, or \<^verbatim>\<open>INDODAX_API_SECRET\<close> and \<^verbatim>\<open>INDODAX_SECRET_KEY\<close> are both unset or empty;
  then no tool invocation is served. With the API key set, the primary secret name unset
  or empty and the legacy name set, start-up succeeds and the secret is the value of the
  legacy name.
\<close>

theorem startup_fails_iff_credentials_missing:
  "(isl (startup env) \<longleftrightarrow>
      \<not> truthy (env ''INDODAX_API_KEY'')
      \<or> \<not> truthy (env ''INDODAX_API_SECRET'') \<and> \<not> truthy (env ''INDODAX_SECRET_KEY''))
   \<and> (isl (startup env) \<longrightarrow> startup env = Inl RuntimeError \<and> serve env c t = Inl RuntimeError)
   \<and> (env ''INDODAX_API_KEY'' = Some k \<and> k \<noteq> [] \<and> \<not> truthy (env ''INDODAX_API_SECRET'')
        \<and> env ''INDODAX_SECRET_KEY'' = Some s \<and> s \<noteq> [] \<longrightarrow>
        startup env = Inr \<lparr>API_KEY = k, API_SECRET = s\<rparr>
        \<and> serve env c t = call_tool (c\<lparr>creds := \<lparr>API_KEY = k, API_SECRET = s\<rparr>\<rparr>) t)"
proof (intro conjI impI)
  show "isl (startup env) \<longleftrightarrow>
      \<not> truthy (env ''INDODAX_API_KEY'')
      \<or> \<not> truthy (env ''INDODAX_API_SECRET'') \<and> \<not> truthy (env ''INDODAX_SECRET_KEY'')"
    by (rule startup_Inl_iff)
next
  assume "isl (startup env)"
  then show "startup env = Inl RuntimeError" by (rule startup_error)
next
  assume "isl (startup env)"
  then have "startup env = Inl RuntimeError" by (rule startup_error)
  then show "serve env c t = Inl RuntimeError" by (simp add: serve_def)
next
  assume a: "env ''INDODAX_API_KEY'' = Some k \<and> k \<noteq> [] \<and> \<not> truthy (env ''INDODAX_API_SECRET'')
        \<and> env ''INDODAX_SECRET_KEY'' = Some s \<and> s \<noteq> []"
  then show st: "startup env = Inr \<lparr>API_KEY = k, API_SECRET = s\<rparr>"
    by (simp add: startup_def py_or_def Let_def)
  then show "serve env c t = call_tool (c\<lparr>creds := \<lparr>API_KEY = k, API_SECRET = s\<rparr>\<rparr>) t"
    by (simp add: serve_def)
qed

theorem startup_witness:
  "startup [''INDODAX_API_KEY'' \<mapsto> ''key'', ''INDODAX_SECRET_KEY'' \<mapsto> ''legacy'']
     = Inr \<lparr>API_KEY = ''key'', API_SECRET = ''legacy''\<rparr>
   \<and> startup [''INDODAX_API_SECRET'' \<mapsto> ''s3cr3t'', ''INDODAX_SECRET_KEY'' \<mapsto> ''legacy'']
     = Inl RuntimeError
   \<and> serve [''INDODAX_API_KEY'' \<mapsto> ''key'', ''INDODAX_API_SECRET'' \<mapsto> [] ]
        \<lparr>creds = \<lparr>API_KEY = [], API_SECRET = []\<rparr>,
         hmac_sha512_hexdigest = (\<lambda>k m. ''00''), time = Float64 7130316800515899 (- 22),
         net = (\<lambda>q. Inr \<lparr>status_code = 200, content = ''{}''\<rparr>),
         json_loads = (\<lambda>b. Some b)\<rparr>
        Get_info
     = Inl RuntimeError"
proof -
  let ?c = "\<lparr>creds = \<lparr>API_KEY = [], API_SECRET = []\<rparr>,
         hmac_sha512_hexdigest = (\<lambda>k m. ''00''), time = Float64 7130316800515899 (- 22),
         net = (\<lambda>q. Inr \<lparr>status_code = 200, content = ''{}''\<rparr>),
         json_loads = (\<lambda>b. Some b)\<rparr>"
  have 1: "startup [''INDODAX_API_KEY'' \<mapsto> ''key'', ''INDODAX_SECRET_KEY'' \<mapsto> ''legacy'']
     = Inr \<lparr>API_KEY = ''key'', API_SECRET = ''legacy''\<rparr>"
    using startup_fails_iff_credentials_missing
      [where env = "[''INDODAX_API_KEY'' \<mapsto> ''key'', ''INDODAX_SECRET_KEY'' \<mapsto> ''legacy'']"
         and k = "''key''" and s = "''legacy''" and c = ?c and t = Get_info]
    by simp
  have 2: "startup [''INDODAX_API_SECRET'' \<mapsto> ''s3cr3t'', ''INDODAX_SECRET_KEY'' \<mapsto> ''legacy'']
     = Inl RuntimeError"
    using startup_fails_iff_credentials_missing
      [where env = "[''INDODAX_API_SECRET'' \<mapsto> ''s3cr3t'', ''INDODAX_SECRET_KEY'' \<mapsto> ''legacy'']"
         and c = ?c and t = Get_info]
    by simp
  have 3: "serve [''INDODAX_API_KEY'' \<mapsto> ''key'', ''INDODAX_API_SECRET'' \<mapsto> [] ] ?c Get_info
     = Inl RuntimeError"
    using startup_fails_iff_credentials_missing
      [where env = "[''INDODAX_API_KEY'' \<mapsto> ''key'', ''INDODAX_API_SECRET'' \<mapsto> [] ]"
         and c = ?c and t = Get_info]
    by simp
  from 1 2 3 show ?thesis by simp
qed

subsection \<open>Tools\<close>

text \<open>
  C8. The ticker tool called without a pair issues a GET for
  \<^verbatim>\<open>https://indodax.com/api/ticker\<close>, the path \<^verbatim>\<open>ticker\<close> of the public base, and called with
  \<^verbatim>\<open>pair_id = "btc_idr"\<close> a GET for \<^verbatim>\<open>https://indodax.com/api/ticker/btc_idr\<close>; what the tool
  returns is what the network answers to that request.
\<close>

theorem ticker_paths:
  "call_tool c (Ticker None) =
     receive c (net c
       \<lparr>http_method = GET, url = ''https://indodax.com/api/ticker'', headers = [], data = []\<rparr>)
   \<and> call_tool c (Ticker (Some ''btc_idr'')) =
     receive c (net c
       \<lparr>http_method = GET, url = ''https://indodax.com/api/ticker/btc_idr'', headers = [],
        data = []\<rparr>)
   \<and> target_of (Ticker None) = Public_get ''ticker''
   \<and> target_of (Ticker (Some ''btc_idr'')) = Public_get ''ticker/btc_idr''
   \<and> public_get c ''ticker'' =
     receive c (net c
       \<lparr>http_method = GET, url = ''https://indodax.com/api/ticker'', headers = [], data = []\<rparr>)
   \<and> public_get c ''ticker/btc_idr'' =
     receive c (net c
       \<lparr>http_method = GET, url = ''https://indodax.com/api/ticker/btc_idr'', headers = [],
        data = []\<rparr>)"
  by (simp add: call_tool_def ticker_path_def public_get_def public_request_def
        PUBLIC_API_BASE_def)

text \<open>
  C9. What the signed dispatcher hands to the network is a POST to the private endpoint
  whose body is the urlencoded dictionary and whose headers are \<^verbatim>\<open>Key\<close> (the API key),
  \<^verbatim>\<open>Sign\<close> and \<^verbatim>\<open>Content-Type\<close>, nothing else. The dictionary that is serialized does not
  depend on the credentials, and the secret enters the call only as the key argument of
  the HMAC: with an HMAC that ignored its key, two secrets would give the same call,
  whatever the network.
\<close>

theorem secret_is_only_the_hmac_key:
  "private_post c payload =
     (fill_timestamp c payload,
      receive c (net c
        \<lparr>http_method = POST, url = ''https://indodax.com/tapi'',
         headers = [(''Key'', API_KEY (creds c)),
                    (''Sign'', hmac_sha512_hexdigest c (API_SECRET (creds c))
                                 (urlencode (fill_timestamp c payload))),
                    (''Content-Type'', ''application/x-www-form-urlencoded'')],
         data = urlencode (fill_timestamp c payload)\<rparr>))
   \<and> fill_timestamp (c\<lparr>creds := \<lparr>API_KEY = k, API_SECRET = s1\<rparr>\<rparr>) payload
       = fill_timestamp (c\<lparr>creds := \<lparr>API_KEY = k, API_SECRET = s2\<rparr>\<rparr>) payload
   \<and> private_post (c\<lparr>creds := \<lparr>API_KEY = k, API_SECRET = s1\<rparr>,
                      hmac_sha512_hexdigest := (\<lambda>key. f)\<rparr>) payload
       = private_post (c\<lparr>creds := \<lparr>API_KEY = k, API_SECRET = s2\<rparr>,
                        hmac_sha512_hexdigest := (\<lambda>key. f)\<rparr>) payload"
  by (simp add: private_post_eq sent_request_def signed_request_eq fill_timestamp_def
        INDODAX_API_URL_def receive_creds receive_hmac time_ms_creds time_ms_hmac)

text \<open>
  C10. The dictionary the caller passed is written in place. Without \<^verbatim>\<open>nonce\<close> and
  \<^verbatim>\<open>timestamp\<close>, after the call (returned or raised) the caller's dictionary is the old one
  with the key \<^verbatim>\<open>timestamp\<close> appended: that key holds the clock reading and every other
  key holds what it held. With \<^verbatim>\<open>nonce\<close> or \<^verbatim>\<open>timestamp\<close> present the dictionary is the
  same as before.
\<close>

theorem payload_is_mutated_in_place:
  "(\<not> contains payload ''nonce'' \<and> \<not> contains payload ''timestamp'' \<longrightarrow>
      fst (private_post c payload) = payload @ [(''timestamp'', VInt (time_ms c))]
      \<and> getitem (fst (private_post c payload)) ''timestamp'' = Some (VInt (time_ms c))
      \<and> (\<forall>k. k \<noteq> ''timestamp'' \<longrightarrow>
            getitem (fst (private_post c payload)) k = getitem payload k))
   \<and> (contains payload ''nonce'' \<or> contains payload ''timestamp'' \<longrightarrow>
      fst (private_post c payload) = payload)"
proof (intro conjI impI allI)
  assume a: "\<not> contains payload ''nonce'' \<and> \<not> contains payload ''timestamp''"
  then show f: "fst (private_post c payload) = payload @ [(''timestamp'', VInt (time_ms c))]"
    by (simp add: private_post_eq fill_timestamp_absent)
  show "getitem (fst (private_post c payload)) ''timestamp'' = Some (VInt (time_ms c))"
    using a by (simp add: f getitem_append_absent)
  fix k :: string
  assume "k \<noteq> ''timestamp''"
  then show "getitem (fst (private_post c payload)) k = getitem payload k"
    using a by (simp add: f getitem_append_absent)
next
  assume "contains payload ''nonce'' \<or> contains payload ''timestamp''"
  then show "fst (private_post c payload) = payload"
    by (simp add: private_post_eq fill_timestamp_present)
qed

theorem payload_is_mutated_witness:
  "fst (private_post
      \<lparr>creds = \<lparr>API_KEY = ''key'', API_SECRET = ''s3cr3t''\<rparr>,
       hmac_sha512_hexdigest = (\<lambda>k m. ''00''), time = Float64 7130316800515899 (- 22),
       net = (\<lambda>q. Inr \<lparr>status_code = 500, content = ''{}''\<rparr>),
       json_loads = (\<lambda>b. Some b)\<rparr>
      [(''method'', VStr ''getInfo'')])
     = [(''method'', VStr ''getInfo''), (''timestamp'', VInt 1700000000123)]
   \<and> fst (private_post
      \<lparr>creds = \<lparr>API_KEY = ''key'', API_SECRET = ''s3cr3t''\<rparr>,
       hmac_sha512_hexdigest = (\<lambda>k m. ''00''), time = Float64 7130316800515899 (- 22),
       net = (\<lambda>q. Inr \<lparr>status_code = 500, content = ''{}''\<rparr>),
       json_loads = (\<lambda>b. Some b)\<rparr>
      [(''method'', VStr ''getInfo''), (''nonce'', VStr ''1'')])
     = [(''method'', VStr ''getInfo''), (''nonce'', VStr ''1'')]"
  using payload_is_mutated_in_place
      [of "[(''method'', VStr ''getInfo'')]"
          "\<lparr>creds = \<lparr>API_KEY = ''key'', API_SECRET = ''s3cr3t''\<rparr>,
            hmac_sha512_hexdigest = (\<lambda>k m. ''00''), time = Float64 7130316800515899 (- 22),
            net = (\<lambda>q. Inr \<lparr>status_code = 500, content = ''{}''\<rparr>),
            json_loads = (\<lambda>b. Some b)\<rparr>"]
    payload_is_mutated_in_place
      [of "[(''method'', VStr ''getInfo''), (''nonce'', VStr ''1'')]"
          "\<lparr>creds = \<lparr>API_KEY = ''key'', API_SECRET = ''s3cr3t''\<rparr>,
            hmac_sha512_hexdigest = (\<lambda>k m. ''00''), time = Float64 7130316800515899 (- 22),
            net = (\<lambda>q. Inr \<lparr>status_code = 500, content = ''{}''\<rparr>),
            json_loads = (\<lambda>b. Some b)\<rparr>"]
  by (simp add: contains_def keys_def time_ms_def time_ms_1700000000123)

subsection \<open>Optional parameters\<close>

lemma contains_Nil: "contains [] k' = False"
  by (simp add: contains_def keys_def)

lemma contains_Cons: "contains ((k, v) # d) k' = (k' = k \<or> contains d k')"
  by (auto simp: contains_def keys_def)

lemma getitem_Nil: "getitem [] k' = None"
  by (simp add: getitem_def)

lemma getitem_Cons: "getitem ((k, v) # d) k' = (if k' = k then Some v else getitem d k')"
  by (simp add: getitem_def)

lemma contains_if_truthy:
  "contains (if_truthy k x d) k' = (k' = k \<and> truthy x \<or> contains d k')"
  by (cases x) (auto simp: if_truthy_def contains_setitem)

lemma contains_if_not_None:
  "contains (if_not_None k x d) k' = (k' = k \<and> x \<noteq> None \<or> contains d k')"
  by (cases x) (auto simp: if_not_None_def contains_setitem)

lemma getitem_if_truthy:
  "getitem (if_truthy k x d) k' =
     (if k' = k \<and> truthy x then map_option VStr x else getitem d k')"
  by (cases x) (auto simp: if_truthy_def getitem_setitem)

lemma getitem_if_not_None:
  "getitem (if_not_None k x d) k' = (if k' = k \<and> x \<noteq> None then x else getitem d k')"
  by (cases x) (auto simp: if_not_None_def getitem_setitem)

lemma no_None_setitem:
  "VNone \<notin> snd ` set d \<Longrightarrow> v \<noteq> VNone \<Longrightarrow> VNone \<notin> snd ` set (setitem k v d)"
  using in_setitem [of _ VNone k v d] by force

lemma no_None_if_truthy:
  "VNone \<notin> snd ` set d \<Longrightarrow> VNone \<notin> snd ` set (if_truthy k x d)"
  by (cases x) (simp_all add: if_truthy_def no_None_setitem)

lemma no_None_if_not_None:
  "VNone \<notin> snd ` set d \<Longrightarrow> x \<noteq> Some VNone \<Longrightarrow> VNone \<notin> snd ` set (if_not_None k x d)"
  by (cases x) (simp_all add: if_not_None_def no_None_setitem)

lemma no_None_payload: "VNone \<notin> snd ` set (payload_of t)"
  by (cases t)
     (simp_all add: payload_of_def get_info_payload_def trans_history_payload_def
        trade_payload_def trade_history_payload_def open_orders_payload_def
        order_history_payload_def get_order_payload_def
        get_order_by_client_order_id_payload_def cancel_order_payload_def
        cancel_by_client_order_id_payload_def withdraw_fee_payload_def
        withdraw_coin_payload_def list_downline_payload_def check_downline_payload_def
        create_voucher_payload_def no_None_if_truthy no_None_if_not_None)

lemma not_supplied_not_contained:
  "(field, False) \<in> set (none_default_params t) \<Longrightarrow> \<not> contains (payload_of t) field"
  by (cases t)
     (auto simp: payload_of_def trans_history_payload_def trade_payload_def
        trade_history_payload_def open_orders_payload_def order_history_payload_def
        withdraw_fee_payload_def withdraw_coin_payload_def create_voucher_payload_def
        contains_if_truthy contains_if_not_None contains_Nil contains_Cons)

text \<open>
  C7, as the code has it. In every private tool, a parameter whose default is \<^verbatim>\<open>None\<close>
  and that the caller did not supply leaves no field in the payload, and no value of a
  payload is \<^verbatim>\<open>None\<close>. The parameters \<^verbatim>\<open>count\<close> and \<^verbatim>\<open>order\<close> of \<^verbatim>\<open>trade_history\<close> and
  \<^verbatim>\<open>order_history\<close> have the defaults \<^verbatim>\<open>100\<close> and \<^verbatim>\<open>"desc"\<close>: their fields are always in
  the payload, holding the default when the caller did not supply the parameter.
\<close>

theorem none_default_parameters_are_omitted:
  "VNone \<notin> snd ` set (payload_of t)
   \<and> (\<forall>field. (field, False) \<in> set (none_default_params t) \<longrightarrow>
          \<not> contains (payload_of t) field)
   \<and> getitem (payload_of (Trade_history pair count from_id end_id order)) ''count''
       = Some (VInt (default 100 count))
   \<and> getitem (payload_of (Trade_history pair count from_id end_id order)) ''order''
       = Some (VStr (default ''desc'' order))
   \<and> getitem (payload_of (Order_history pair count from_id end_id order)) ''count''
       = Some (VInt (default 100 count))
   \<and> getitem (payload_of (Order_history pair count from_id end_id order)) ''order''
       = Some (VStr (default ''desc'' order))"
proof (intro conjI allI impI)
  show "VNone \<notin> snd ` set (payload_of t)"
    by (rule no_None_payload)
next
  fix field
  assume "(field, False) \<in> set (none_default_params t)"
  then show "\<not> contains (payload_of t) field"
    by (rule not_supplied_not_contained)
qed (simp_all add: payload_of_def trade_history_payload_def order_history_payload_def
       getitem_if_truthy getitem_if_not_None getitem_Nil getitem_Cons)

theorem none_default_parameters_witness:
  "\<not> contains (payload_of (Trans_history None (Some ''2024-01-31''))) ''start''
   \<and> payload_of (Trans_history None (Some ''2024-01-31''))
       = [(''method'', VStr ''transHistory''), (''end'', VStr ''2024-01-31'')]"
proof -
  have "(''start'', False) \<in> set (none_default_params (Trans_history None (Some ''2024-01-31'')))"
    by simp
  with none_default_parameters_are_omitted [of "Trans_history None (Some ''2024-01-31'')"]
  have "\<not> contains (payload_of (Trans_history None (Some ''2024-01-31''))) ''start''"
    by blast
  then show ?thesis
    by (simp add: payload_of_def trans_history_payload_def if_truthy_def)
qed

text \<open>
  C7 as it was stated, for every optional parameter, fails on the tool
  \<^verbatim>\<open>trade_history\<close> called with no argument at all: the caller supplied neither
  \<^verbatim>\<open>count\<close> nor \<^verbatim>\<open>order\<close>, and the payload has both fields.
\<close>

theorem defaulted_parameters_are_sent:
  "payload_of (Trade_history None None None None None)
     = [(''method'', VStr ''tradeHistory''), (''count'', VInt 100), (''order'', VStr ''desc'')]
   \<and> contains (payload_of (Trade_history None None None None None)) ''count''
   \<and> contains (payload_of (Trade_history None None None None None)) ''order''"
  by (simp add: payload_of_def trade_history_payload_def if_truthy_def if_not_None_def
        default_def contains_def keys_def)

end
